theory Spec2Isabelle
  imports Main "HOL-Library.Multiset"
begin

section \<open>Values, exceptions and collaborators\<close>

text \<open>
  JSON values as Python holds them after decoding a request body: \<open>None\<close> is
  \<open>JNull\<close>, a \<open>bool\<close>, an \<open>int\<close> (unbounded), a \<open>str\<close>, a \<open>list\<close>, and a \<open>dict\<close>
  with \<open>str\<close> keys as the list of its members in the order of insertion. A Python
  \<open>str\<close> is a \<open>string\<close>, one \<open>char\<close> for each character, so the characters are the
  code points below 256; \<open>bytes\<close> are a list of \<open>char\<close> as well. Two kinds of values
  are outside the model: a \<open>float\<close>, and a \<open>str\<close> with a code point of 256 or more.
\<close>

datatype json =
    JNull
  | JBool bool
  | JInt int
  | JStr string
  | JArr "json list"
  | JObj "(string \<times> json) list"

type_synonym bytes = "char list"

text \<open>
  The exceptions of the program. \<open>HTTPException status_code detail\<close> is FastAPI's;
  \<open>RequestValidationError\<close> is what FastAPI answers (status 422) when the body of a
  request does not fit the pydantic model of the endpoint, with one entry for each
  offending field; \<open>Exception msg\<close> is any other exception.
\<close>

datatype constraint = Missing | Ge int | Le int

datatype exn =
    HTTPException int string
  | RequestValidationError "(string \<times> constraint) list"
  | Exception string

text \<open>
  What the program uses of Python's library and of the operating system:
  \<open>exn_str\<close> is \<open>str(e)\<close>, \<open>path_suffix\<close> is \<open>Path(name).suffix\<close>, and \<open>can_write\<close>
  tells for which file names of the upload directory \<open>write_bytes\<close> succeeds (it
  raises \<open>OSError\<close> for the others).
\<close>

record python =
  exn_str :: "exn \<Rightarrow> string"
  path_suffix :: "string \<Rightarrow> string"
  can_write :: "string \<Rightarrow> bool"

text \<open>
  The modules \<open>app.models.model_loader\<close>, \<open>app.rag.rag_pipeline\<close>,
  \<open>app.processors.document_processor\<close> and the package constant \<open>__version__\<close> are
  used by the routes below; the routes take them as a record of functions over the
  state \<open>'w\<close> of the process (the loaded model and the RAG index). A call returns
  either an exception or a value, together with the state it leaves.

  \<open>answer_question_with_rag\<close> returns a dict that \<open>rag_question\<close> reads at the keys
  \<open>question\<close>, \<open>answer\<close>, \<open>num_chunks_used\<close> and \<open>relevant_chunks\<close> and hands to
  \<open>RAGAnswerResponse\<close>; \<open>rag_result\<close> holds these four entries at the types of the
  response model. (A dict that lacks a key, or holds a value the response model rejects,
  makes the handler raise inside its \<open>try\<close>: that is the failing case of the call.)
\<close>

record rag_result =
  question :: string
  answer :: string
  num_chunks_used :: int
  relevant_chunks :: "string list option"

record ('w, 'r) services =
  app_version :: string
  is_available :: "'w \<Rightarrow> bool"
  is_loaded :: "'w \<Rightarrow> bool"
  load_model :: "'w \<Rightarrow> (exn + unit) \<times> 'w"
  validate_file_size :: "bytes \<Rightarrow> exn + unit"
  process_document :: "string \<Rightarrow> bytes \<Rightarrow> exn + string"
  process_large_document :: "string \<Rightarrow> 'w \<Rightarrow> (exn + 'r) \<times> 'w"
  generate_summary_with_rag :: "string \<Rightarrow> int option \<Rightarrow> 'w \<Rightarrow> (exn + string) \<times> 'w"
  answer_question_with_rag :: "string \<Rightarrow> int option \<Rightarrow> 'w \<Rightarrow> (exn + rag_result) \<times> 'w"

section \<open>Request schemas (app/schemas/requests.py)\<close>

record RAGSummaryRequest =
  query :: string
  top_k :: "int option"

record RAGQuestionRequest =
  question :: string
  top_k :: "int option"

text \<open>
  \<open>top_k: Optional[int] = Field(None, ge=1, le=20)\<close>: an absent value stays \<open>None\<close>,
  an integer is checked against both bounds.
\<close>

definition check_top_k :: "int option \<Rightarrow> (string \<times> constraint) list" where
  "check_top_k v =
     (case v of
        None \<Rightarrow> []
      | Some k \<Rightarrow>
          if k < 1 then [(''top_k'', Ge 1)]
          else if 20 < k then [(''top_k'', Le 20)]
          else [])"

text \<open>
  Building the request models from the fields of a body (\<open>None\<close>: the field is absent).
  \<open>query\<close> has a default, \<open>question\<close> is required.
\<close>

definition RAGSummaryRequest_parse :: "string option \<Rightarrow> int option \<Rightarrow> exn + RAGSummaryRequest" where
  "RAGSummaryRequest_parse q k =
     (case check_top_k k of
        [] \<Rightarrow>
          Inr \<lparr>RAGSummaryRequest.query =
                 (case q of
                    None \<Rightarrow> ''Provide a comprehensive summary of the medical report''
                  | Some s \<Rightarrow> s),
               RAGSummaryRequest.top_k = k\<rparr>
      | e # es \<Rightarrow> Inl (RequestValidationError (e # es)))"

definition RAGQuestionRequest_parse :: "string option \<Rightarrow> int option \<Rightarrow> exn + RAGQuestionRequest" where
  "RAGQuestionRequest_parse q k =
     (case (case q of None \<Rightarrow> [(''question'', Missing)] | Some s \<Rightarrow> []) @ check_top_k k of
        [] \<Rightarrow>
          Inr \<lparr>RAGQuestionRequest.question = (case q of None \<Rightarrow> [] | Some s \<Rightarrow> s),
               RAGQuestionRequest.top_k = k\<rparr>
      | e # es \<Rightarrow> Inl (RequestValidationError (e # es)))"

section \<open>Response schemas (app/schemas/responses.py)\<close>

record HealthResponse =
  status :: string
  model_loaded :: bool
  version :: string
  ml_available :: bool

record SummaryResponse =
  summary :: string
  input_length :: int
  summary_length :: int

record RAGAnswerResponse =
  question :: string
  answer :: string
  num_chunks_used :: int
  relevant_chunks :: "string list option"

record DocumentUploadResponse =
  filename :: string
  file_size :: int
  format :: string
  processed :: bool
  message :: string

text \<open>
  The body FastAPI sends for a \<open>response_model\<close>: a JSON object with one member for
  each field of the model, in the order of the fields.
\<close>

definition SummaryResponse_json :: "SummaryResponse \<Rightarrow> (string \<times> json) list" where
  "SummaryResponse_json r =
     [(''summary'', JStr (summary r)),
      (''input_length'', JInt (input_length r)),
      (''summary_length'', JInt (summary_length r))]"

definition RAGAnswerResponse_json :: "RAGAnswerResponse \<Rightarrow> (string \<times> json) list" where
  "RAGAnswerResponse_json r =
     [(''question'', JStr (RAGAnswerResponse.question r)),
      (''answer'', JStr (RAGAnswerResponse.answer r)),
      (''num_chunks_used'', JInt (RAGAnswerResponse.num_chunks_used r)),
      (''relevant_chunks'',
         (case RAGAnswerResponse.relevant_chunks r of
            None \<Rightarrow> JNull
          | Some cs \<Rightarrow> JArr (map JStr cs)))]"

definition DocumentUploadResponse_json :: "DocumentUploadResponse \<Rightarrow> (string \<times> json) list" where
  "DocumentUploadResponse_json r =
     [(''filename'', JStr (filename r)),
      (''file_size'', JInt (file_size r)),
      (''format'', JStr (format r)),
      (''processed'', JBool (processed r)),
      (''message'', JStr (message r))]"

section \<open>Routes (app/api/routes.py)\<close>

definition health_check :: "('w, 'r) services \<Rightarrow> 'w \<Rightarrow> HealthResponse" where
  "health_check sv w =
     \<lparr>status = ''healthy'',
      model_loaded = (if is_available sv w then is_loaded sv w else False),
      version = app_version sv,
      ml_available = is_available sv w\<rparr>"

text \<open>
  The handlers of the RAG routes end with
  \<^verbatim>\<open>except HTTPException: raise\<close> and
  \<^verbatim>\<open>except Exception as e: raise HTTPException(status_code=500, detail=str(e))\<close>.
\<close>

definition reraise :: "python \<Rightarrow> exn \<Rightarrow> exn" where
  "reraise py e =
     (case e of
        HTTPException c d \<Rightarrow> HTTPException c d
      | _ \<Rightarrow> HTTPException 500 (exn_str py e))"

definition ml_unavailable :: exn where
  "ml_unavailable =
     HTTPException 503
       ''ML dependencies not available. Install: pip install torch transformers accelerate''"

text \<open>\<^verbatim>\<open>if not model_loader.is_loaded(): model_loader.load_model()\<close>\<close>

definition ensure_loaded :: "('w, 'r) services \<Rightarrow> 'w \<Rightarrow> (exn + unit) \<times> 'w" where
  "ensure_loaded sv w = (if is_loaded sv w then (Inr (), w) else load_model sv w)"

text \<open>\<open>str.lstrip(".")\<close> removes every leading dot.\<close>

definition lstrip_dot :: "string \<Rightarrow> string" where
  "lstrip_dot s = dropWhile (\<lambda>c. c = CHR ''.'') s"

text \<open>
  \<open>upload_document\<close>: the upload is written to a temporary file that carries the
  suffix of the uploaded name, checked, read as text and indexed; the temporary file is
  removed on every path. Every exception, an \<open>HTTPException\<close> too, is answered with
  status 500 here.
\<close>

definition upload_document ::
    "python \<Rightarrow> ('w, 'r) services \<Rightarrow> string \<Rightarrow> bytes \<Rightarrow> 'w \<Rightarrow> (exn + DocumentUploadResponse) \<times> 'w" where
  "upload_document py sv name content w =
     (case validate_file_size sv content of
        Inl e \<Rightarrow> (Inl (HTTPException 500 (exn_str py e)), w)
      | Inr u \<Rightarrow>
         (case process_document sv (path_suffix py name) content of
            Inl e \<Rightarrow> (Inl (HTTPException 500 (exn_str py e)), w)
          | Inr txt \<Rightarrow>
             (case process_large_document sv txt w of
                (Inl e, w') \<Rightarrow> (Inl (HTTPException 500 (exn_str py e)), w')
              | (Inr r, w') \<Rightarrow>
                  (Inr \<lparr>filename = name,
                        file_size = int (length content),
                        format = lstrip_dot (path_suffix py name),
                        processed = True,
                        message = ''Document processed and indexed successfully''\<rparr>,
                   w'))))"

definition rag_summarize ::
    "python \<Rightarrow> ('w, 'r) services \<Rightarrow> RAGSummaryRequest \<Rightarrow> 'w \<Rightarrow> (exn + SummaryResponse) \<times> 'w" where
  "rag_summarize py sv request w =
     (if \<not> is_available sv w then (Inl ml_unavailable, w)
      else
        (case ensure_loaded sv w of
           (Inl e, w1) \<Rightarrow> (Inl (reraise py e), w1)
         | (Inr u, w1) \<Rightarrow>
            (case generate_summary_with_rag sv (RAGSummaryRequest.query request)
                    (RAGSummaryRequest.top_k request) w1 of
               (Inl e, w2) \<Rightarrow> (Inl (reraise py e), w2)
             | (Inr s, w2) \<Rightarrow>
                 (Inr \<lparr>summary = s, input_length = 0, summary_length = int (length s)\<rparr>,
                  w2))))"

definition rag_question ::
    "python \<Rightarrow> ('w, 'r) services \<Rightarrow> RAGQuestionRequest \<Rightarrow> 'w \<Rightarrow> (exn + RAGAnswerResponse) \<times> 'w" where
  "rag_question py sv request w =
     (if \<not> is_available sv w then (Inl ml_unavailable, w)
      else
        (case ensure_loaded sv w of
           (Inl e, w1) \<Rightarrow> (Inl (reraise py e), w1)
         | (Inr u, w1) \<Rightarrow>
            (case answer_question_with_rag sv (RAGQuestionRequest.question request)
                    (RAGQuestionRequest.top_k request) w1 of
               (Inl e, w2) \<Rightarrow> (Inl (reraise py e), w2)
             | (Inr result, w2) \<Rightarrow>
                 (Inr \<lparr>RAGAnswerResponse.question = rag_result.question result,
                       RAGAnswerResponse.answer = rag_result.answer result,
                       RAGAnswerResponse.num_chunks_used = rag_result.num_chunks_used result,
                       RAGAnswerResponse.relevant_chunks = rag_result.relevant_chunks result\<rparr>,
                  w2))))"

text \<open>
  The two RAG endpoints as FastAPI serves them: the body is validated against the
  request model first, and the handler runs only on a body that passed.
\<close>

definition post_rag_summarize ::
    "python \<Rightarrow> ('w, 'r) services \<Rightarrow> string option \<Rightarrow> int option \<Rightarrow> 'w \<Rightarrow> (exn + SummaryResponse) \<times> 'w" where
  "post_rag_summarize py sv q k w =
     (case RAGSummaryRequest_parse q k of
        Inl e \<Rightarrow> (Inl e, w)
      | Inr request \<Rightarrow> rag_summarize py sv request w)"

definition post_rag_question ::
    "python \<Rightarrow> ('w, 'r) services \<Rightarrow> string option \<Rightarrow> int option \<Rightarrow> 'w \<Rightarrow> (exn + RAGAnswerResponse) \<times> 'w" where
  "post_rag_question py sv q k w =
     (case RAGQuestionRequest_parse q k of
        Inl e \<Rightarrow> (Inl e, w)
      | Inr request \<Rightarrow> rag_question py sv request w)"

section \<open>The RAG pipeline (app/rag/rag_pipeline.py, from the specification)\<close>

text \<open>
  The module \<open>app.rag.rag_pipeline\<close> is not among the sources; its components are
  modelled from sections 3 and 4 of the specification. The embedding and the generation
  service are collaborators that either fail or answer; a vector has the type \<open>'v\<close>
  and a similarity score the linearly ordered type \<open>'s\<close> (the specification asks for
  the cosine similarity of floating point vectors, which is a parameter here).
\<close>

text \<open>
  Modelled from the spec: the \<open>Chunk\<close> of the data model (section 3), whose declaration
  is missing from the sources; the field \<open>text\<close> is \<open>chunk_text\<close> here.
\<close>

record 'v chunk =
  chunk_id :: nat
  doc_id :: string
  chunk_text :: string
  char_offset_start :: nat
  char_offset_end :: nat
  embedding :: 'v
  created_at :: nat

subsection \<open>Chunker\<close>

text \<open>
  Modelled from the spec: \<open>Chunker.split\<close> (section 4.1), which is missing from the
  sources. A chunk reaches \<open>chunk_size\<close> characters from its start, or to the end of the
  text. Where a chunk stops before the end of the text, the splitter prefers a sentence
  or paragraph boundary near the \<open>chunk_size\<close> boundary: \<open>boundary text start hard\<close> is
  that preference (the boundary found in the lookback window before \<open>hard\<close>, if any; the
  specification fixes neither the boundaries nor the window), and it is taken when it
  lies in the chunk beyond the first \<open>overlap\<close> characters; otherwise the chunk is cut
  at \<open>chunk_size\<close>. The next chunk starts \<open>overlap\<close> characters before the cut. Each
  chunk comes with its start and end offset.
\<close>

definition cut_point ::
    "(string \<Rightarrow> nat \<Rightarrow> nat \<Rightarrow> nat option) \<Rightarrow> string \<Rightarrow> nat \<Rightarrow> nat \<Rightarrow> nat \<Rightarrow> nat" where
  "cut_point boundary txt chunk_size overlap start =
     (let hard = min (start + chunk_size) (length txt)
      in if hard < length txt then
           (case boundary txt start hard of
              None \<Rightarrow> hard
            | Some b \<Rightarrow> if start + overlap < b \<and> b \<le> hard then b else hard)
         else hard)"

text \<open>
  Modelled from the spec: the loop of \<open>Chunker.split\<close> from the offset \<open>start\<close> on (section 4.1),
  missing from the sources: one chunk up to the cut, and the rest from \<open>overlap\<close>
  characters before the cut while the cut is not the end of the text.
\<close>

function split_from ::
    "(string \<Rightarrow> nat \<Rightarrow> nat \<Rightarrow> nat option) \<Rightarrow> string \<Rightarrow> nat \<Rightarrow> nat \<Rightarrow> nat \<Rightarrow> (string \<times> nat \<times> nat) list" where
  "split_from boundary txt chunk_size overlap start =
     (if overlap < chunk_size \<and> start < length txt then
        (let stop = cut_point boundary txt chunk_size overlap start
         in (take (stop - start) (drop start txt), start, stop) #
            (if stop < length txt
             then split_from boundary txt chunk_size overlap (stop - overlap)
             else []))
      else [])"
  by pat_completeness auto
termination
proof (relation "measure (\<lambda>(boundary, txt, chunk_size, overlap, start). length txt - start)")
  show "wf (measure (\<lambda>(boundary, txt, chunk_size, overlap, start). length txt - start))"
    by simp
next
  fix bnd :: "string \<Rightarrow> nat \<Rightarrow> nat \<Rightarrow> nat option" and t :: string
    and S ov s0 x :: nat
  assume a: "ov < S \<and> s0 < length t"
    and x: "x = cut_point bnd t S ov s0"
    and lt: "x < length t"
  from a lt have "s0 + ov < cut_point bnd t S ov s0"
    unfolding x cut_point_def Let_def
    by (simp add: min_def split: option.splits if_splits)
  with x lt
  show "((bnd, t, S, ov, x - ov), bnd, t, S, ov, s0)
        \<in> measure (\<lambda>(boundary, txt, chunk_size, overlap, start). length txt - start)"
    by simp
qed

declare split_from.simps [simp del]

text \<open>
  Modelled from the spec: \<open>chunk_size\<close> and \<open>overlap\<close> are positive integers with
  \<open>overlap < chunk_size\<close>, and anything else is a configuration error; an empty text
  gives no chunk.
\<close>

definition split ::
    "(string \<Rightarrow> nat \<Rightarrow> nat \<Rightarrow> nat option) \<Rightarrow> string \<Rightarrow> int \<Rightarrow> int \<Rightarrow> exn + (string \<times> nat \<times> nat) list" where
  "split boundary txt chunk_size overlap =
     (if 0 < chunk_size \<and> 0 < overlap \<and> overlap < chunk_size
      then Inr (split_from boundary txt (nat chunk_size) (nat overlap) 0)
      else Inl (Exception ''ConfigurationError''))"





subsection \<open>EmbeddingIndex\<close>

text \<open>
  Modelled from the spec: \<open>EmbeddingIndex.query\<close> (section 4.2), which is missing from
  the sources. The index is the sequence of the stored chunks. A query scores every
  stored chunk by its similarity to the query vector and returns the \<open>k\<close> best with
  their scores, the higher score first and, among equal scores, the earlier
  \<open>chunk_id\<close> first.
\<close>

definition outranks :: "'v chunk \<times> 's::linorder \<Rightarrow> 'v chunk \<times> 's \<Rightarrow> bool" where
  "outranks a b = (snd b < snd a \<or> (snd a = snd b \<and> chunk_id (fst a) \<le> chunk_id (fst b)))"

text \<open>
  Modelled from the spec: a scored chunk is put before the first one that it outranks
  (section 4.2; missing from the sources).
\<close>

fun insert_ranked :: "'v chunk \<times> 's::linorder \<Rightarrow> ('v chunk \<times> 's) list \<Rightarrow> ('v chunk \<times> 's) list" where
  "insert_ranked a [] = [a]"
| "insert_ranked a (b # bs) = (if outranks a b then a # b # bs else b # insert_ranked a bs)"

text \<open>
  Modelled from the spec: the scored chunks in the order of their rank (section 4.2;
  missing from the sources).
\<close>

definition ranked :: "('v chunk \<times> 's::linorder) list \<Rightarrow> ('v chunk \<times> 's) list" where
  "ranked scored = foldr insert_ranked scored []"

text \<open>
  Modelled from the spec: \<open>EmbeddingIndex.query(query_embedding, k)\<close> (section 4.2; missing
  from the sources).
\<close>

definition query ::
    "('v \<Rightarrow> 'v \<Rightarrow> 's::linorder) \<Rightarrow> 'v chunk list \<Rightarrow> 'v \<Rightarrow> nat \<Rightarrow> ('v chunk \<times> 's) list" where
  "query similarity index query_embedding k =
     take k (ranked (map (\<lambda>c. (c, similarity query_embedding (embedding c))) index))"

subsection \<open>RetrievalPlanner, PromptAssembler, RAGOrchestrator\<close>

text \<open>
  Modelled from the spec: the configuration and the collaborators of the pipeline
  (sections 4 and 6), missing from the sources: the default for \<open>top_k\<close>,
  the budget of a prompt, the embedding service, the similarity, the layout of a prompt
  (an instruction followed by the tagged chunk texts; the specification leaves the
  layout open) and the generation service.
\<close>

record ('v, 's) rag_config =
  default_top_k :: nat
  max_prompt_chars :: nat
  embed :: "string \<Rightarrow> exn + 'v"
  similarity :: "'v \<Rightarrow> 'v \<Rightarrow> 's"
  render :: "string \<Rightarrow> 'v chunk list \<Rightarrow> string"
  generate :: "string \<Rightarrow> exn + string"

text \<open>
  Modelled from the spec: the state of the pipeline (section 3), missing from the
  sources: the index, and the prompts that were sent to the generation service so far.
\<close>

record 'v rag_state =
  index :: "'v chunk list"
  prompts :: "string list"

text \<open>
  Modelled from the spec: \<open>RetrievalPlanner.plan\<close> (section 4.3), which is missing from
  the sources. An absent \<open>top_k\<close> is the configured default, a supplied one is clamped
  into \<open>[1, 20]\<close>; the query is embedded and the index queried.
\<close>

definition resolve_top_k :: "nat \<Rightarrow> int option \<Rightarrow> nat" where
  "resolve_top_k dflt requested_top_k =
     (case requested_top_k of None \<Rightarrow> dflt | Some k \<Rightarrow> nat (max 1 (min 20 k)))"

text \<open>
  Modelled from the spec: \<open>RetrievalPlanner.plan(query_text, requested_top_k)\<close> (section
  4.3; missing from the sources).
\<close>

definition plan ::
    "('v, 's::linorder) rag_config \<Rightarrow> 'v chunk list \<Rightarrow> string \<Rightarrow> int option \<Rightarrow> exn + ('v chunk \<times> 's) list" where
  "plan cfg idx query_text requested_top_k =
     (case embed cfg query_text of
        Inl e \<Rightarrow> Inl e
      | Inr v \<Rightarrow> Inr (query (similarity cfg) idx v (resolve_top_k (default_top_k cfg) requested_top_k)))"

text \<open>
  Modelled from the spec: \<open>PromptAssembler.assemble\<close> (section 4.4), which is missing
  from the sources. Chunks are dropped from the lowest-scoring end while the prompt
  exceeds the budget and more than one chunk is left; the result is the prompt and the
  chunks it includes.
\<close>

function trim :: "(string \<Rightarrow> 'v chunk list \<Rightarrow> string) \<Rightarrow> string \<Rightarrow> nat \<Rightarrow> 'v chunk list \<Rightarrow> 'v chunk list" where
  "trim layout instruction budget cs =
     (if length cs \<le> 1 \<or> length (layout instruction cs) \<le> budget then cs
      else trim layout instruction budget (butlast cs))"
  by pat_completeness auto
termination
  by (relation "measure (\<lambda>(layout, instruction, budget, cs). length cs)") auto

declare trim.simps [simp del]

text \<open>
  Modelled from the spec: \<open>PromptAssembler.assemble(instruction, retrieval_result,
  max_prompt_chars)\<close> (section 4.4; missing from the sources).
\<close>

definition assemble ::
    "(string \<Rightarrow> 'v chunk list \<Rightarrow> string) \<Rightarrow> string \<Rightarrow> ('v chunk \<times> 's) list \<Rightarrow> nat \<Rightarrow> string \<times> 'v chunk list" where
  "assemble layout instruction retrieval_result budget =
     (let used = trim layout instruction budget (map fst retrieval_result)
      in (layout instruction used, used))"

text \<open>
  Modelled from the spec: the query operations of \<open>RAGOrchestrator\<close> (section 4.5),
  which are missing from the sources: plan, assemble with the operation's instruction,
  send the prompt to the generation service, and return its output with the chunks
  used. A failure of a collaborator is the failure of the operation.
\<close>

definition retrieve_and_generate ::
    "('v, 's::linorder) rag_config \<Rightarrow> string \<Rightarrow> string \<Rightarrow> int option \<Rightarrow> 'v rag_state
       \<Rightarrow> (exn + string \<times> 'v chunk list) \<times> 'v rag_state" where
  "retrieve_and_generate cfg instruction query_text requested_top_k st =
     (case plan cfg (index st) query_text requested_top_k of
        Inl e \<Rightarrow> (Inl e, st)
      | Inr retrieval_result \<Rightarrow>
         (case assemble (render cfg) instruction retrieval_result (max_prompt_chars cfg) of
            (prompt, used) \<Rightarrow>
              (case generate cfg prompt of
                 Inl e \<Rightarrow> (Inl e, st\<lparr>prompts := prompts st @ [prompt]\<rparr>)
               | Inr out \<Rightarrow> (Inr (out, used), st\<lparr>prompts := prompts st @ [prompt]\<rparr>))))"

text \<open>
  Modelled from the spec: \<open>summarize_with_retrieval(query, top_k)\<close> (section 4.5; missing
  from the sources), with the instruction "produce a comprehensive summary".
\<close>

definition summarize_with_retrieval ::
    "('v, 's::linorder) rag_config \<Rightarrow> string \<Rightarrow> int option \<Rightarrow> 'v rag_state
       \<Rightarrow> (exn + string \<times> 'v chunk list) \<times> 'v rag_state" where
  "summarize_with_retrieval cfg query_text requested_top_k st =
     retrieve_and_generate cfg ''produce a comprehensive summary'' query_text requested_top_k st"

text \<open>
  Modelled from the spec: \<open>answer_with_retrieval(question, top_k)\<close> (section 4.5; missing
  from the sources), with the instruction "answer the question using only the provided
  context."; the chunk count is the number of chunks used.
\<close>

definition answer_with_retrieval ::
    "('v, 's::linorder) rag_config \<Rightarrow> string \<Rightarrow> int option \<Rightarrow> 'v rag_state
       \<Rightarrow> (exn + string \<times> 'v chunk list \<times> nat) \<times> 'v rag_state" where
  "answer_with_retrieval cfg question_text requested_top_k st =
     (case retrieve_and_generate cfg ''answer the question using only the provided context.''
             question_text requested_top_k st of
        (Inl e, st') \<Rightarrow> (Inl e, st')
      | (Inr (out, used), st') \<Rightarrow> (Inr (out, used, length used), st'))"

text \<open>
  Modelled from the spec: the state of a process whose RAG pipeline is the one above. It
  holds the state of the pipeline; what else it holds (the loaded model) is left open.
\<close>

record 'v process =
  rag :: "'v rag_state"

text \<open>
  Modelled from the spec: the two query operations as the routes call them, which
  \<open>app.rag.rag_pipeline\<close> would provide. \<open>generate_summary_with_rag\<close> is the summary
  text of \<open>summarize_with_retrieval\<close>, and \<open>answer_question_with_rag\<close> gives the
  question, the answer, the chunk count and the texts of the chunks used of
  \<open>answer_with_retrieval\<close>. The other collaborators stay those of \<open>base\<close>.
\<close>

definition pipeline_services ::
    "('v, 's::linorder) rag_config \<Rightarrow> (('v, 'z) process_scheme, 'r) services
       \<Rightarrow> (('v, 'z) process_scheme, 'r) services" where
  "pipeline_services cfg base =
     base
       \<lparr>generate_summary_with_rag :=
          (\<lambda>q k w.
             case summarize_with_retrieval cfg q k (rag w) of
               (Inl e, st) \<Rightarrow> (Inl e, w\<lparr>rag := st\<rparr>)
             | (Inr (out, used), st) \<Rightarrow> (Inr out, w\<lparr>rag := st\<rparr>)),
        answer_question_with_rag :=
          (\<lambda>q k w.
             case answer_with_retrieval cfg q k (rag w) of
               (Inl e, st) \<Rightarrow> (Inl e, w\<lparr>rag := st\<rparr>)
             | (Inr (out, used, n), st) \<Rightarrow>
                 (Inr \<lparr>rag_result.question = q,
                       rag_result.answer = out,
                       rag_result.num_chunks_used = int n,
                       rag_result.relevant_chunks = Some (map chunk_text used)\<rparr>,
                  w\<lparr>rag := st\<rparr>))\<rparr>"

section \<open>Python's json module (json.dumps, json.loads)\<close>

text \<open>
  \<open>patients.py\<close> stores the medicines of a prescription as \<open>json.dumps(medicines)\<close> and
  reads them with \<open>json.loads\<close>, both with their default arguments. This section follows
  \<open>json.encoder\<close> and \<open>json.decoder\<close> of the standard library on the values of type
  \<open>json\<close>.

  Python's \<open>str\<close> of an integer, which \<open>json.dumps\<close> writes for an \<open>int\<close> and the
  f-string of \<open>upload_report\<close> for the patient id.
\<close>

fun str_nat :: "nat \<Rightarrow> string" where
  "str_nat n =
     (if n < 10 then [''0123456789'' ! n]
      else str_nat (n div 10) @ [''0123456789'' ! (n mod 10)])"

definition str_int :: "int \<Rightarrow> string" where
  "str_int i = (if i < 0 then CHR ''-'' # str_nat (nat (- i)) else str_nat (nat i))"





















section \<open>Patient management (app/database.py, app/api/patients.py)\<close>

text \<open>
  The rows of the tables \<open>prescriptions\<close> and \<open>reports\<close>, with the columns of
  \<open>init_db\<close>. The column \<open>medicines\<close> is \<open>TEXT\<close>; the record that the API returns
  for a prescription is the row with \<open>medicines\<close> replaced by the decoded value, so the
  type of that field is a parameter. \<open>created_at\<close> is the time of the insertion.
\<close>

record 'm prescription =
  id :: int
  patient_id :: int
  doctor_name :: string
  diagnosis :: string
  medicines :: 'm
  "notes" :: "string option"
  created_at :: nat

record report =
  id :: int
  patient_id :: int
  doctor_name :: string
  title :: string
  file_path :: string
  created_at :: nat

text \<open>
  The state of the patient management system: the files of \<open>UPLOAD_DIR\<close> by name,
  the two tables in the order of insertion, and for each table the largest row id it
  has used (\<open>AUTOINCREMENT\<close>).
\<close>

record pms =
  uploads :: "string \<rightharpoonup> bytes"
  prescriptions :: "string prescription list"
  prescriptions_seq :: int
  reports :: "report list"
  reports_seq :: int

text \<open>An \<open>AUTOINCREMENT\<close> key is one more than the largest id the table has ever held.\<close>

definition next_rowid :: "int \<Rightarrow> int list \<Rightarrow> int" where
  "next_rowid seq ids = fold max ids seq + 1"

text \<open>
  The body of a \<open>POST /prescriptions\<close>, read with \<open>body.get\<close>. For the three required
  columns and for \<open>medicines\<close>, \<open>None\<close> is an absent key (an absent \<open>medicines\<close> is the
  empty list); for \<open>notes\<close>, \<open>None\<close> is an absent key, which defaults to the empty
  string, and \<open>Some None\<close> is an explicit \<open>null\<close>. The scalar members are taken at the
  types of their columns.
\<close>

record prescription_body =
  patient_id :: "int option"
  doctor_name :: "string option"
  diagnosis :: "string option"
  medicines :: "json option"
  "notes" :: "string option option"





text \<open>
  The \<open>try\<close> block of \<open>upload_report\<close>: an empty upload raises status 400 before
  anything is written; otherwise the file is written under the name
  \<open>{patient_id}_{filename}\<close>, then the row is inserted, read back and committed.
\<close>

definition upload_report_try ::
    "python \<Rightarrow> nat \<Rightarrow> int \<Rightarrow> string \<Rightarrow> string \<Rightarrow> string \<Rightarrow> bytes \<Rightarrow> pms \<Rightarrow> (exn + report) \<times> pms" where
  "upload_report_try py now pid doctor ttl fname content st =
     (if content = [] then (Inl (HTTPException 400 ''File is empty''), st)
      else
        (let name = str_int pid @ ''_'' @ fname
         in if \<not> can_write py name then (Inl (Exception ''OSError''), st)
            else
              (let st1 = st\<lparr>uploads := (uploads st)(name \<mapsto> content)\<rparr>;
                   lastrowid = next_rowid (reports_seq st1) (map report.id (reports st1));
                   new = \<lparr>report.id = lastrowid,
                          report.patient_id = pid,
                          report.doctor_name = doctor,
                          report.title = ttl,
                          report.file_path = name,
                          report.created_at = now\<rparr>;
                   st2 = st1\<lparr>reports := reports st1 @ [new], reports_seq := lastrowid\<rparr>
               in case find (\<lambda>r. report.id r = lastrowid) (reports st2) of
                    None \<Rightarrow> (Inl (Exception ''TypeError''), st2)
                  | Some row \<Rightarrow> (Inr row, st2))))"

text \<open>
  \<open>upload_report\<close>: the handler
  \<^verbatim>\<open>except Exception as e: raise HTTPException(status_code=500, detail=f"Upload failed: {str(e)}")\<close>
  catches whatever the block raised, an \<open>HTTPException\<close> included.
\<close>

definition upload_report ::
    "python \<Rightarrow> nat \<Rightarrow> int \<Rightarrow> string \<Rightarrow> string \<Rightarrow> string \<Rightarrow> bytes \<Rightarrow> pms \<Rightarrow> (exn + report) \<times> pms" where
  "upload_report py now pid doctor ttl fname content st =
     (case upload_report_try py now pid doctor ttl fname content st of
        (Inl e, st') \<Rightarrow> (Inl (HTTPException 500 (''Upload failed: '' @ exn_str py e)), st')
      | (Inr row, st') \<Rightarrow> (Inr row, st'))"




section \<open>Stand-ins for running the program on concrete input\<close>

text \<open>
  The library for concrete runs: \<open>str\<close> gives the message of a plain exception and
  \<open>status_code: detail\<close> for an \<open>HTTPException\<close>, the suffix of a name starts at its
  first dot, and every file name of the upload directory but the empty one can be
  written.
\<close>

definition stub_python :: python where
  "stub_python =
     \<lparr>exn_str =
        (\<lambda>e. case e of
                Exception m \<Rightarrow> m
              | HTTPException c d \<Rightarrow> str_int c @ '': '' @ d
              | RequestValidationError es \<Rightarrow> ''validation error''),
      path_suffix = (\<lambda>n. dropWhile (\<lambda>c. c \<noteq> CHR ''.'') n),
      can_write = (\<lambda>n. n \<noteq> [])\<rparr>"

text \<open>
  A stand-in for the collaborators, for running the routes on concrete input: the
  state is the flag "the model is loaded", the dependencies are installed, every call
  succeeds, a document is indexed as three chunks, and a question is answered from
  two chunks.
\<close>

definition stub_services :: "(bool, nat) services" where
  "stub_services =
     \<lparr>app_version = ''1.0.0'',
      is_available = (\<lambda>w. True),
      is_loaded = (\<lambda>w. w),
      load_model = (\<lambda>w. (Inr (), True)),
      validate_file_size = (\<lambda>b. Inr ()),
      process_document = (\<lambda>sfx b. Inr b),
      process_large_document = (\<lambda>t w. (Inr 3, w)),
      generate_summary_with_rag = (\<lambda>q k w. (Inr ''stable'', w)),
      answer_question_with_rag =
        (\<lambda>q k w.
           (Inr \<lparr>rag_result.question = q,
                 rag_result.answer = ''yes'',
                 rag_result.num_chunks_used = 2,
                 rag_result.relevant_chunks = Some [''c1'', ''c2'']\<rparr>,
            w))\<rparr>"






text \<open>
  A pipeline for concrete runs: vectors of integers compared by their dot product, a
  prompt that lists the chunk texts on lines below the instruction, an embedding that
  looks at the length of the text only, and a generation service that echoes its prompt.
\<close>

definition dot :: "int list \<Rightarrow> int list \<Rightarrow> int" where
  "dot a b = sum_list (map2 (*) a b)"

definition sample_config :: "(int list, int) rag_config" where
  "sample_config =
     \<lparr>default_top_k = 5,
      max_prompt_chars = 2000,
      embed = (\<lambda>t. Inr [int (length t), 1]),
      similarity = dot,
      render = (\<lambda>instruction cs. instruction @ concat (map (\<lambda>c. CHR 0x0A # chunk_text c) cs)),
      generate = (\<lambda>prompt. Inr (''Re: '' @ prompt))\<rparr>"

definition sample_chunk :: "nat \<Rightarrow> string \<Rightarrow> int list \<Rightarrow> int list chunk" where
  "sample_chunk i t v =
     \<lparr>chunk_id = i, doc_id = ''report'', chunk_text = t, char_offset_start = 0,
      char_offset_end = length t, embedding = v, chunk.created_at = 0\<rparr>"

definition sample_index :: "int list chunk list" where
  "sample_index =
     [sample_chunk 1 ''fever'' [1, 0], sample_chunk 2 ''cough'' [3, 1], sample_chunk 3 ''rash'' [1, 0]]"

text \<open>
  Collaborators whose model is installed and loaded already, for running the routes
  over the pipeline, a process with an empty index, and one with the sample index.
\<close>

definition loaded_services :: "('w, nat) services" where
  "loaded_services =
     \<lparr>app_version = ''1.0.0'',
      is_available = (\<lambda>w. True),
      is_loaded = (\<lambda>w. True),
      load_model = (\<lambda>w. (Inr (), w)),
      validate_file_size = (\<lambda>b. Inr ()),
      process_document = (\<lambda>sfx b. Inr b),
      process_large_document = (\<lambda>t w. (Inr 3, w)),
      generate_summary_with_rag = (\<lambda>q k w. (Inl (Exception ''no pipeline''), w)),
      answer_question_with_rag = (\<lambda>q k w. (Inl (Exception ''no pipeline''), w))\<rparr>"


definition indexed_process :: "int list process" where
  "indexed_process = \<lparr>rag = \<lparr>index = sample_index, prompts = []\<rparr>\<rparr>"



section \<open>Properties of the routes\<close>

text \<open>
  C8. In every health-check response \<open>model_loaded\<close> implies \<open>ml_available\<close>: when the
  ML dependencies are reported unavailable, the model is reported as not loaded.
\<close>

theorem health_check_loaded_implies_available:
  "model_loaded (health_check sv w) \<longrightarrow> ml_available (health_check sv w)"
  by (simp add: health_check_def)

theorem health_check_loaded_implies_available_witness:
  "model_loaded (health_check stub_services True) \<and> ml_available (health_check stub_services True)"
  using health_check_loaded_implies_available [of stub_services True]
  by (simp add: health_check_def stub_services_def stub_python_def)

text \<open>
  C1 (as the spec states it, refuted). A \<open>top_k\<close> outside \<open>[1, 20]\<close> is not clamped:
  the request models bound the field with \<open>ge=1, le=20\<close>, so \<open>top_k = 0\<close> and
  \<open>top_k = 999\<close> are rejected with a validation error, and the handler is not run.
\<close>

theorem top_k_clamped_counterexample:
  "post_rag_summarize stub_python stub_services (Some ''q'') (Some 0) True =
     (Inl (RequestValidationError [(''top_k'', Ge 1)]), True)
   \<and> post_rag_summarize stub_python stub_services (Some ''q'') (Some 999) True =
     (Inl (RequestValidationError [(''top_k'', Le 20)]), True)
   \<and> post_rag_question stub_python stub_services (Some ''q'') (Some 0) True =
     (Inl (RequestValidationError [(''top_k'', Ge 1)]), True)
   \<and> post_rag_question stub_python stub_services (Some ''q'') (Some 999) True =
     (Inl (RequestValidationError [(''top_k'', Le 20)]), True)"
  by (simp add: post_rag_summarize_def post_rag_question_def RAGSummaryRequest_parse_def
        RAGQuestionRequest_parse_def check_top_k_def)

text \<open>
  C1 (amended). A RAG summarize or RAG question request that supplies a \<open>top_k\<close>
  below 1 or above 20 is rejected with a validation error naming the violated bound,
  and leaves the state as it was; a supplied \<open>top_k\<close> within \<open>[1, 20]\<close> reaches the
  handler unchanged.
\<close>

theorem top_k_out_of_range_rejected:
  "post_rag_summarize py sv qo (Some k) w =
     (if k < 1 then (Inl (RequestValidationError [(''top_k'', Ge 1)]), w)
      else if 20 < k then (Inl (RequestValidationError [(''top_k'', Le 20)]), w)
      else rag_summarize py sv
             \<lparr>RAGSummaryRequest.query =
                (case qo of
                   None \<Rightarrow> ''Provide a comprehensive summary of the medical report''
                 | Some s \<Rightarrow> s),
              RAGSummaryRequest.top_k = Some k\<rparr> w)
   \<and> post_rag_question py sv (Some q) (Some k) w =
     (if k < 1 then (Inl (RequestValidationError [(''top_k'', Ge 1)]), w)
      else if 20 < k then (Inl (RequestValidationError [(''top_k'', Le 20)]), w)
      else rag_question py sv
             \<lparr>RAGQuestionRequest.question = q, RAGQuestionRequest.top_k = Some k\<rparr> w)"
  by (simp add: post_rag_summarize_def post_rag_question_def RAGSummaryRequest_parse_def
        RAGQuestionRequest_parse_def check_top_k_def)

theorem top_k_out_of_range_rejected_witness:
  "post_rag_summarize stub_python stub_services (Some ''q'') (Some 21) False =
     (Inl (RequestValidationError [(''top_k'', Le 20)]), False)
   \<and> post_rag_question stub_python stub_services (Some ''q'') (Some 20) False =
     rag_question stub_python stub_services
       \<lparr>RAGQuestionRequest.question = ''q'', RAGQuestionRequest.top_k = Some 20\<rparr> False"
  using top_k_out_of_range_rejected [of stub_python stub_services "Some ''q''" 21 False "''q''"]
    top_k_out_of_range_rejected [of stub_python stub_services "Some ''q''" 20 False "''q''"]
  by simp

text \<open>
  C2 (as the spec states it, refuted). A successful RAG summarize call answers with a
  \<open>SummaryResponse\<close>, which has no member for the chunks used.
\<close>

theorem rag_summarize_chunks_used_counterexample:
  "rag_summarize stub_python stub_services \<lparr>RAGSummaryRequest.query = ''q'', RAGSummaryRequest.top_k = Some 5\<rparr> True =
     (Inr \<lparr>summary = ''stable'', input_length = 0, summary_length = 6\<rparr>, True)
   \<and> map_of (SummaryResponse_json \<lparr>summary = ''stable'', input_length = 0, summary_length = 6\<rparr>)
        ''chunks_used'' = None"
  by (simp add: rag_summarize_def ensure_loaded_def stub_services_def stub_python_def SummaryResponse_json_def)

text \<open>
  C2 (amended). For every successful RAG summarize call the response holds the summary
  text that the pipeline generated for the request's query and \<open>top_k\<close>, an
  \<open>input_length\<close> of 0 and the length of the summary; these three are all its members.
\<close>

theorem rag_summarize_response:
  assumes "rag_summarize py sv request w = (Inr r, w')"
  shows "input_length r = 0
    \<and> summary_length r = int (length (summary r))
    \<and> map fst (SummaryResponse_json r) = [''summary'', ''input_length'', ''summary_length'']
    \<and> (\<exists>w1. generate_summary_with_rag sv (RAGSummaryRequest.query request)
                (RAGSummaryRequest.top_k request) w1 = (Inr (summary r), w'))"
  using assms
  by (auto simp: rag_summarize_def SummaryResponse_json_def
        split: if_splits prod.splits sum.splits)

theorem rag_summarize_response_witness:
  "rag_summarize stub_python stub_services \<lparr>RAGSummaryRequest.query = ''q'', RAGSummaryRequest.top_k = None\<rparr> False =
     (Inr \<lparr>summary = ''stable'', input_length = 0, summary_length = 6\<rparr>, True)
   \<and> map fst (SummaryResponse_json \<lparr>summary = ''stable'', input_length = 0, summary_length = 6\<rparr>)
       = [''summary'', ''input_length'', ''summary_length'']"
  using rag_summarize_response [of stub_python stub_services
      "\<lparr>RAGSummaryRequest.query = ''q'', RAGSummaryRequest.top_k = None\<rparr>" False
      "\<lparr>summary = ''stable'', input_length = 0, summary_length = 6\<rparr>" True]
  by (simp add: rag_summarize_def ensure_loaded_def stub_services_def stub_python_def SummaryResponse_json_def)

text \<open>
  C3 (as the spec states it, refuted). A successful document upload answers with a
  \<open>DocumentUploadResponse\<close>; the value that indexing returns (three chunks here) is
  dropped, and the response has no member for a number of chunks.
\<close>

theorem upload_document_chunk_count_counterexample:
  "upload_document stub_python stub_services ''a.txt'' ''hello'' True =
     (Inr \<lparr>filename = ''a.txt'', file_size = 5, format = ''txt'', processed = True,
           message = ''Document processed and indexed successfully''\<rparr>, True)
   \<and> map_of (DocumentUploadResponse_json
        \<lparr>filename = ''a.txt'', file_size = 5, format = ''txt'', processed = True,
         message = ''Document processed and indexed successfully''\<rparr>) ''chunks_indexed'' = None
   \<and> map_of (DocumentUploadResponse_json
        \<lparr>filename = ''a.txt'', file_size = 5, format = ''txt'', processed = True,
         message = ''Document processed and indexed successfully''\<rparr>) ''chunk_count'' = None"
  by (simp add: upload_document_def stub_services_def stub_python_def DocumentUploadResponse_json_def
        lstrip_dot_def)

text \<open>
  C3 (amended). For every successful ingestion of a document the text of the document
  was handed to the pipeline's indexing, and the response reports the uploaded file's
  name, its size in bytes, its format (the suffix of the name without leading dots),
  \<open>processed = True\<close> and a fixed message; these five are all its members.
\<close>

theorem upload_document_response:
  assumes "upload_document py sv name content w = (Inr r, w')"
  shows "r = \<lparr>filename = name, file_size = int (length content),
              format = lstrip_dot (path_suffix py name), processed = True,
              message = ''Document processed and indexed successfully''\<rparr>
    \<and> map fst (DocumentUploadResponse_json r) =
        [''filename'', ''file_size'', ''format'', ''processed'', ''message'']
    \<and> (\<exists>txt n. process_document sv (path_suffix py name) content = Inr txt
          \<and> process_large_document sv txt w = (Inr n, w'))"
  using assms
  by (auto simp: upload_document_def DocumentUploadResponse_json_def
        split: prod.splits sum.splits)

theorem upload_document_response_witness:
  "upload_document stub_python stub_services ''scan.pdf'' ''%PDF'' False =
     (Inr \<lparr>filename = ''scan.pdf'', file_size = 4, format = ''pdf'', processed = True,
           message = ''Document processed and indexed successfully''\<rparr>, False)
   \<and> process_large_document stub_services ''%PDF'' False = (Inr 3, False)"
  using upload_document_response [of stub_python stub_services "''scan.pdf''" "''%PDF''" False
      "\<lparr>filename = ''scan.pdf'', file_size = 4, format = ''pdf'', processed = True,
        message = ''Document processed and indexed successfully''\<rparr>" False]
  by (simp add: upload_document_def stub_services_def stub_python_def lstrip_dot_def)

section \<open>Properties of the json module\<close>











































section \<open>Properties of the patient management routes\<close>















text \<open>
  C10. For every report upload whose file content is empty, \<open>upload_report\<close> fails with
  an HTTP error of status 500 that wraps the inner status 400 "File is empty", and it
  leaves the state as it was: no file is written to the upload directory and no row is
  inserted into the \<open>reports\<close> table.
\<close>

theorem upload_report_empty:
  "upload_report py now pid doctor ttl fname [] st =
     (Inl (HTTPException 500
             (''Upload failed: '' @ exn_str py (HTTPException 400 ''File is empty''))),
      st)"
  by (simp add: upload_report_def upload_report_try_def)

section \<open>Properties of the pipeline\<close>

subsection \<open>EmbeddingIndex\<close>

lemma length_insert_ranked: "length (insert_ranked a bs) = Suc (length bs)"
  by (induction bs) auto

lemma mset_insert_ranked: "mset (insert_ranked a bs) = add_mset a (mset bs)"
  by (induction bs) auto

lemma mset_ranked: "mset (ranked xs) = mset xs"
  unfolding ranked_def by (induction xs) (auto simp: mset_insert_ranked)

lemma length_ranked: "length (ranked xs) = length xs"
  using mset_ranked [of xs] by (metis size_mset)

lemma outranks_total: "\<not> outranks a b \<Longrightarrow> outranks b a"
  by (auto simp: outranks_def)

lemma outranks_trans: "outranks a b \<Longrightarrow> outranks b c \<Longrightarrow> outranks a c"
  by (auto simp: outranks_def)

lemma set_insert_ranked: "set (insert_ranked a bs) = insert a (set bs)"
  by (induction bs) auto

lemma sorted_insert_ranked:
  "sorted_wrt outranks bs \<Longrightarrow> sorted_wrt outranks (insert_ranked a bs)"
proof (induction bs)
  case Nil
  then show ?case by simp
next
  case (Cons b bs)
  show ?case
  proof (cases "outranks a b")
    case True
    with Cons.prems show ?thesis by (auto intro: outranks_trans)
  next
    case False
    then have "outranks b a" by (rule outranks_total)
    with Cons False show ?thesis by (auto simp: set_insert_ranked)
  qed
qed

lemma sorted_ranked: "sorted_wrt outranks (ranked xs)"
  unfolding ranked_def by (induction xs) (auto intro: sorted_insert_ranked)

lemma outranks_score: "outranks a b \<Longrightarrow> snd b \<le> snd a"
  by (auto simp: outranks_def)

lemma sorted_ranked_score: "sorted_wrt (\<lambda>a b. snd b \<le> snd a) (ranked xs)"
  using sorted_ranked [of xs] by (rule sorted_wrt_mono_rel [rotated]) (auto intro: outranks_score)

text \<open>
  C6. For every index with \<open>N\<close> stored chunks and every \<open>k\<close>, \<open>query\<close> (a total function:
  it has no failing case) returns exactly \<open>k\<close> results when \<open>k \<le> N\<close>, all \<open>N\<close> stored
  chunks when \<open>N < k\<close>, and the empty sequence when the index is empty; the results are
  sorted by non-increasing similarity score, and each result is a stored chunk with its
  score.
\<close>

theorem query_top_k:
  fixes similarity :: "'v \<Rightarrow> 'v \<Rightarrow> 's::linorder"
  shows "(k \<le> length idx \<longrightarrow> length (query similarity idx q k) = k)
    \<and> (length idx < k \<longrightarrow>
          length (query similarity idx q k) = length idx
          \<and> mset (map fst (query similarity idx q k)) = mset idx)
    \<and> (idx = [] \<longrightarrow> query similarity idx q k = [])
    \<and> sorted_wrt (\<lambda>a b. snd b \<le> snd a) (query similarity idx q k)
    \<and> (\<forall>r\<in>set (query similarity idx q k).
          fst r \<in> set idx \<and> snd r = similarity q (embedding (fst r)))"
proof -
  let ?scored = "map (\<lambda>c. (c, similarity q (embedding c))) idx"
  have len: "length (ranked ?scored) = length idx"
    by (simp add: length_ranked)
  have "map fst ?scored = idx"
    by (induction idx) auto
  then have all: "mset (map fst (ranked ?scored)) = mset idx"
    using mset_ranked [of ?scored] by (metis mset_map)
  have mem: "fst r \<in> set idx \<and> snd r = similarity q (embedding (fst r))"
    if "r \<in> set (query similarity idx q k)" for r
  proof -
    from that have "r \<in> set (ranked ?scored)"
      unfolding query_def by (rule in_set_takeD)
    then have "r \<in> set ?scored"
      using mset_ranked [of ?scored] by (metis set_mset_mset)
    then show ?thesis by auto
  qed
  have srt: "sorted_wrt (\<lambda>a b. snd b \<le> snd a) (query similarity idx q k)"
    unfolding query_def by (intro sorted_wrt_take sorted_ranked_score)
  have empty: "idx = [] \<longrightarrow> query similarity idx q k = []"
    by (simp add: query_def ranked_def)
  from len all mem srt empty show ?thesis
    by (auto simp: query_def)
qed

theorem query_top_k_witness:
  "2 \<le> length sample_index
   \<and> query dot sample_index [1, 1] 2 =
       [(sample_chunk 2 ''cough'' [3, 1], 4), (sample_chunk 1 ''fever'' [1, 0], 1)]
   \<and> length sample_index < 5
   \<and> query dot sample_index [1, 1] 5 =
       [(sample_chunk 2 ''cough'' [3, 1], 4), (sample_chunk 1 ''fever'' [1, 0], 1),
        (sample_chunk 3 ''rash'' [1, 0], 1)]
   \<and> query dot ([] :: int list chunk list) [1, 1] 5 = []"
  using query_top_k [of 2 sample_index dot "[1, 1]"] query_top_k [of 5 sample_index dot "[1, 1]"]
    query_top_k [of 5 "[]" dot "[1, 1]"]
  by (simp add: query_def ranked_def outranks_def sample_index_def sample_chunk_def dot_def)

subsection \<open>Chunker\<close>

lemma cut_point_bounds:
  assumes "ov < S" and "s < length t"
  shows "s < cut_point bnd t S ov s"
    and "cut_point bnd t S ov s \<le> length t"
    and "cut_point bnd t S ov s < length t \<Longrightarrow> s + ov < cut_point bnd t S ov s"
  using assms unfolding cut_point_def Let_def
  by (simp_all add: min_def split: option.splits if_splits)

lemma split_from_step:
  assumes "ov < S" and "s < length t"
  shows "split_from bnd t S ov s =
     (take (cut_point bnd t S ov s - s) (drop s t), s, cut_point bnd t S ov s) #
     (if cut_point bnd t S ov s < length t
      then split_from bnd t S ov (cut_point bnd t S ov s - ov)
      else [])"
  using assms by (subst split_from.simps) (simp add: Let_def)

lemma split_from_induct [consumes 2, case_names chunk]:
  assumes "ov < S" and "s < length t"
    and step: "\<And>s. s < length t \<Longrightarrow>
        (cut_point bnd t S ov s < length t \<Longrightarrow> P (cut_point bnd t S ov s - ov)) \<Longrightarrow> P s"
  shows "P s"
  using \<open>s < length t\<close>
proof (induction "length t - s" arbitrary: s rule: less_induct)
  case less
  show ?case
  proof (rule step [OF less.prems])
    assume c: "cut_point bnd t S ov s < length t"
    from cut_point_bounds(3) [OF \<open>ov < S\<close> less.prems c]
    have "s + ov < cut_point bnd t S ov s" .
    with c show "P (cut_point bnd t S ov s - ov)"
      by (intro less.hyps) auto
  qed
qed





lemma split_from_slices:
  assumes "ov < S" and "s < length t"
  shows "\<forall>c\<in>set (split_from bnd t S ov s).
      fst (snd c) < snd (snd c) \<and> snd (snd c) \<le> length t
      \<and> fst c = take (snd (snd c) - fst (snd c)) (drop (fst (snd c)) t)"
  using assms
proof (induction rule: split_from_induct [where bnd = bnd])
  case (chunk s)
  note b = cut_point_bounds [OF \<open>ov < S\<close> chunk(1), of bnd]
  from b(1,2) chunk(2) show ?case
    by (subst split_from_step [OF \<open>ov < S\<close> chunk(1)]) auto
qed








subsection \<open>The RAG routes over the pipeline\<close>

lemma trim_prefix: "\<exists>n. trim layout instruction budget cs = take n cs"
proof (induction layout instruction budget cs rule: trim.induct)
  case (1 layout instruction budget cs)
  show ?case
  proof (cases "length cs \<le> 1 \<or> length (layout instruction cs) \<le> budget")
    case True
    then have "trim layout instruction budget cs = take (length cs) cs"
      by (subst trim.simps) simp
    then show ?thesis ..
  next
    case False
    with "1.IH" obtain n where "trim layout instruction budget (butlast cs) = take n (butlast cs)"
      by blast
    with False have "trim layout instruction budget cs = take (min n (length cs - 1)) cs"
      by (subst trim.simps) (simp add: butlast_conv_take min.commute)
    then show ?thesis ..
  qed
qed

lemma set_trim: "set (trim layout instruction budget cs) \<subseteq> set cs"
proof -
  from trim_prefix [of layout instruction budget cs] obtain n
    where "trim layout instruction budget cs = take n cs" ..
  then show ?thesis by (simp add: set_take_subset)
qed

lemma query_stored: "fst ` set (query sim idx q k) \<subseteq> set idx"
proof
  fix c
  assume "c \<in> fst ` set (query sim idx q k)"
  then obtain r where r: "r \<in> set (query sim idx q k)" and c: "c = fst r"
    by blast
  from r have "r \<in> set (ranked (map (\<lambda>c. (c, sim q (embedding c))) idx))"
    unfolding query_def by (rule in_set_takeD)
  then have "r \<in> set (map (\<lambda>c. (c, sim q (embedding c))) idx)"
    using mset_ranked [of "map (\<lambda>c. (c, sim q (embedding c))) idx"]
    by (metis set_mset_mset)
  with c show "c \<in> set idx" by auto
qed

lemma retrieve_and_generate_success:
  fixes cfg :: "('v, 's::linorder) rag_config"
  assumes "retrieve_and_generate cfg instruction q k st = (Inr (out, used), st')"
  shows "\<exists>v. embed cfg q = Inr v
    \<and> used = trim (render cfg) instruction (max_prompt_chars cfg)
        (map fst (query (similarity cfg) (index st) v (resolve_top_k (default_top_k cfg) k)))
    \<and> generate cfg (render cfg instruction used) = Inr out
    \<and> st' = st\<lparr>prompts := prompts st @ [render cfg instruction used]\<rparr>"
  using assms
  by (auto simp: retrieve_and_generate_def plan_def assemble_def Let_def split: sum.splits)

lemma rag_question_success:
  assumes "rag_question py sv request w = (Inr r, w')"
  shows "\<exists>w1 res.
      ensure_loaded sv w = (Inr (), w1)
    \<and> answer_question_with_rag sv (RAGQuestionRequest.question request)
        (RAGQuestionRequest.top_k request) w1 = (Inr res, w')
    \<and> r = \<lparr>RAGAnswerResponse.question = rag_result.question res,
            RAGAnswerResponse.answer = rag_result.answer res,
            RAGAnswerResponse.num_chunks_used = rag_result.num_chunks_used res,
            RAGAnswerResponse.relevant_chunks = rag_result.relevant_chunks res\<rparr>"
  using assms
  by (auto simp: rag_question_def split: if_splits prod.splits sum.splits)

lemma pipeline_answer_success:
  fixes cfg :: "('v, 's::linorder) rag_config"
    and base :: "(('v, 'z) process_scheme, 'r) services"
  assumes "answer_question_with_rag (pipeline_services cfg base) q k w1 = (Inr res, w')"
  shows "\<exists>out used st'.
      retrieve_and_generate cfg ''answer the question using only the provided context.'' q k
        (rag w1) = (Inr (out, used), st')
    \<and> res = \<lparr>rag_result.question = q, rag_result.answer = out,
              rag_result.num_chunks_used = int (length used),
              rag_result.relevant_chunks = Some (map chunk_text used)\<rparr>
    \<and> w' = w1\<lparr>rag := st'\<rparr>"
proof -
  obtain x st' where rg: "retrieve_and_generate cfg
      ''answer the question using only the provided context.'' q k (rag w1) = (x, st')"
    by (cases "retrieve_and_generate cfg
      ''answer the question using only the provided context.'' q k (rag w1)")
  show ?thesis
  proof (cases x)
    case (Inl e)
    with assms rg show ?thesis
      by (simp add: pipeline_services_def answer_with_retrieval_def)
  next
    case (Inr p)
    obtain out used where p: "p = (out, used)" by (cases p)
    from assms rg Inr p show ?thesis
      by (auto simp: pipeline_services_def answer_with_retrieval_def)
  qed
qed

text \<open>
  C4. For every successful RAG answer call (the route of the sources over the pipeline
  of the specification) the response contains the answer text, which is what the
  generation service returned for the prompt; the list of chunks used
  (\<open>relevant_chunks\<close>), which holds the texts of the chunks of that prompt, all of them
  chunks of the index; and the chunk count (\<open>num_chunks_used\<close>), which is the number of
  these chunks.
\<close>

theorem rag_question_response:
  fixes cfg :: "('v, 's::linorder) rag_config"
    and base :: "(('v, 'z) process_scheme, 'r) services"
  assumes "rag_question py (pipeline_services cfg base) request w = (Inr r, w')"
  shows "\<exists>w1 v used.
      ensure_loaded base w = (Inr (), w1)
    \<and> embed cfg (RAGQuestionRequest.question request) = Inr v
    \<and> used = trim (render cfg) ''answer the question using only the provided context.''
        (max_prompt_chars cfg)
        (map fst (query (similarity cfg) (index (rag w1)) v
           (resolve_top_k (default_top_k cfg) (RAGQuestionRequest.top_k request))))
    \<and> set used \<subseteq> set (index (rag w1))
    \<and> generate cfg (render cfg ''answer the question using only the provided context.'' used)
        = Inr (RAGAnswerResponse.answer r)
    \<and> prompts (rag w') = prompts (rag w1) @
        [render cfg ''answer the question using only the provided context.'' used]
    \<and> map_of (RAGAnswerResponse_json r) ''answer'' = Some (JStr (RAGAnswerResponse.answer r))
    \<and> map_of (RAGAnswerResponse_json r) ''relevant_chunks'' =
        Some (JArr (map JStr (map chunk_text used)))
    \<and> map_of (RAGAnswerResponse_json r) ''num_chunks_used'' = Some (JInt (int (length used)))"
proof -
  let ?sv = "pipeline_services cfg base"
  let ?instr = "''answer the question using only the provided context.''"
  have el: "ensure_loaded ?sv w = ensure_loaded base w"
    by (simp add: ensure_loaded_def pipeline_services_def)
  from rag_question_success [OF assms] obtain w1 res where
    loaded: "ensure_loaded base w = (Inr (), w1)"
    and ans: "answer_question_with_rag ?sv (RAGQuestionRequest.question request)
        (RAGQuestionRequest.top_k request) w1 = (Inr res, w')"
    and r: "r = \<lparr>RAGAnswerResponse.question = rag_result.question res,
              RAGAnswerResponse.answer = rag_result.answer res,
              RAGAnswerResponse.num_chunks_used = rag_result.num_chunks_used res,
              RAGAnswerResponse.relevant_chunks = rag_result.relevant_chunks res\<rparr>"
    unfolding el by blast
  from pipeline_answer_success [OF ans] obtain out used st' where
    rg: "retrieve_and_generate cfg ?instr (RAGQuestionRequest.question request)
        (RAGQuestionRequest.top_k request) (rag w1) = (Inr (out, used), st')"
    and res: "res = \<lparr>rag_result.question = RAGQuestionRequest.question request,
                     rag_result.answer = out,
                     rag_result.num_chunks_used = int (length used),
                     rag_result.relevant_chunks = Some (map chunk_text used)\<rparr>"
    and w': "w' = w1\<lparr>rag := st'\<rparr>"
    by blast
  from retrieve_and_generate_success [OF rg] obtain v where
    v: "embed cfg (RAGQuestionRequest.question request) = Inr v"
    and used: "used = trim (render cfg) ?instr (max_prompt_chars cfg)
        (map fst (query (similarity cfg) (index (rag w1)) v
           (resolve_top_k (default_top_k cfg) (RAGQuestionRequest.top_k request))))"
    and gen: "generate cfg (render cfg ?instr used) = Inr out"
    and st': "st' = (rag w1)\<lparr>prompts := prompts (rag w1) @ [render cfg ?instr used]\<rparr>"
    by blast
  have "set used \<subseteq> set (map fst (query (similarity cfg) (index (rag w1)) v
           (resolve_top_k (default_top_k cfg) (RAGQuestionRequest.top_k request))))"
    unfolding used by (rule set_trim)
  also have "\<dots> = fst ` set (query (similarity cfg) (index (rag w1)) v
           (resolve_top_k (default_top_k cfg) (RAGQuestionRequest.top_k request)))"
    by simp
  also have "\<dots> \<subseteq> set (index (rag w1))"
    by (rule query_stored)
  finally have stored: "set used \<subseteq> set (index (rag w1))" .
  have json: "map_of (RAGAnswerResponse_json r) ''answer'' = Some (JStr (RAGAnswerResponse.answer r))"
    "map_of (RAGAnswerResponse_json r) ''relevant_chunks'' =
        Some (JArr (map JStr (map chunk_text used)))"
    "map_of (RAGAnswerResponse_json r) ''num_chunks_used'' = Some (JInt (int (length used)))"
    by (simp_all add: r res RAGAnswerResponse_json_def)
  have ans_out: "RAGAnswerResponse.answer r = out"
    by (simp add: r res)
  have log: "prompts (rag w') = prompts (rag w1) @ [render cfg ?instr used]"
    by (simp add: w' st')
  from loaded v used stored gen log json show ?thesis
    unfolding ans_out by blast
qed

theorem rag_question_response_witness:
  "rag_question stub_python (pipeline_services sample_config loaded_services)
     \<lparr>RAGQuestionRequest.question = ''dose'', RAGQuestionRequest.top_k = Some 2\<rparr>
     indexed_process =
     (Inr \<lparr>RAGAnswerResponse.question = ''dose'',
           RAGAnswerResponse.answer =
             ''Re: answer the question using only the provided context.'' @
             CHR 0x0A # ''cough'' @ CHR 0x0A # ''fever'',
           RAGAnswerResponse.num_chunks_used = 2,
           RAGAnswerResponse.relevant_chunks = Some [''cough'', ''fever'']\<rparr>,
      \<lparr>rag = \<lparr>index = sample_index,
              prompts = [''answer the question using only the provided context.'' @
                         CHR 0x0A # ''cough'' @ CHR 0x0A # ''fever'']\<rparr>\<rparr>)
   \<and> map_of (RAGAnswerResponse_json
        \<lparr>RAGAnswerResponse.question = ''dose'',
         RAGAnswerResponse.answer =
           ''Re: answer the question using only the provided context.'' @
           CHR 0x0A # ''cough'' @ CHR 0x0A # ''fever'',
         RAGAnswerResponse.num_chunks_used = 2,
         RAGAnswerResponse.relevant_chunks = Some [''cough'', ''fever'']\<rparr>) ''relevant_chunks''
       = Some (JArr [JStr ''cough'', JStr ''fever''])
   \<and> map_of (RAGAnswerResponse_json
        \<lparr>RAGAnswerResponse.question = ''dose'',
         RAGAnswerResponse.answer =
           ''Re: answer the question using only the provided context.'' @
           CHR 0x0A # ''cough'' @ CHR 0x0A # ''fever'',
         RAGAnswerResponse.num_chunks_used = 2,
         RAGAnswerResponse.relevant_chunks = Some [''cough'', ''fever'']\<rparr>) ''num_chunks_used''
       = Some (JInt 2)"
proof -
  have run: "rag_question stub_python (pipeline_services sample_config loaded_services)
     \<lparr>RAGQuestionRequest.question = ''dose'', RAGQuestionRequest.top_k = Some 2\<rparr>
     indexed_process =
     (Inr \<lparr>RAGAnswerResponse.question = ''dose'',
           RAGAnswerResponse.answer =
             ''Re: answer the question using only the provided context.'' @
             CHR 0x0A # ''cough'' @ CHR 0x0A # ''fever'',
           RAGAnswerResponse.num_chunks_used = 2,
           RAGAnswerResponse.relevant_chunks = Some [''cough'', ''fever'']\<rparr>,
      \<lparr>rag = \<lparr>index = sample_index,
              prompts = [''answer the question using only the provided context.'' @
                         CHR 0x0A # ''cough'' @ CHR 0x0A # ''fever'']\<rparr>\<rparr>)"
    by (simp add: rag_question_def ensure_loaded_def pipeline_services_def loaded_services_def
          answer_with_retrieval_def retrieve_and_generate_def plan_def query_def ranked_def
          outranks_def assemble_def trim.simps sample_config_def resolve_top_k_def
          indexed_process_def sample_index_def sample_chunk_def dot_def)
  from rag_question_response [OF run] run show ?thesis
    by (simp add: RAGAnswerResponse_json_def)
qed

subsection \<open>The RAG routes over an empty index\<close>





end
